theory Spec2Isabelle
  imports Complex_Main "HOL-Library.Product_Lexorder"
begin

section \<open>The CNC quoting engine of \<^verbatim>\<open>src/main.py\<close>\<close>

text \<open>
  The engine is the class \<^verbatim>\<open>CADQuotingEngine\<close>. Its methods are pure functions of the mesh
  and of the request (quantity, expedited tier); the calibration tables set up in
  \<^verbatim>\<open>__init__\<close> are never written afterwards and are constants here.

  Numbers. Python's \<^verbatim>\<open>float\<close> is modelled by \<^typ>\<open>real\<close>: every arithmetic operation is the
  exact one, so rounding error, infinities and NaN are outside the model. Python's \<^verbatim>\<open>int\<close>
  is \<^typ>\<open>int\<close>, and the result of \<^verbatim>\<open>len\<close> is a \<^typ>\<open>nat\<close>.
\<close>

subsection \<open>Python primitives\<close>

text \<open>\<^verbatim>\<open>int(x)\<close> on a float truncates towards zero.\<close>

definition py_int :: "real \<Rightarrow> int" where
  "py_int x = (if 0 \<le> x then \<lfloor>x\<rfloor> else \<lceil>x\<rceil>)"

text \<open>
  \<^verbatim>\<open>min(xs, key=f)\<close> on a non-empty list: one pass from the left that replaces the
  current best only by an element with a strictly smaller key, so the first of several
  minimal elements is returned.
\<close>

fun min_from :: "('a \<Rightarrow> 'k::linorder) \<Rightarrow> 'a \<Rightarrow> 'a list \<Rightarrow> 'a" where
  "min_from key best [] = best"
| "min_from key best (x # xs) = min_from key (if key x < key best then x else best) xs"

datatype error = ValueError string | ZeroDivisionError

definition py_min :: "('a \<Rightarrow> 'k::linorder) \<Rightarrow> 'a list \<Rightarrow> error + 'a" where
  "py_min key xs = (case xs of [] \<Rightarrow> Inl (ValueError ''min() arg is an empty sequence'')
                             | x # rest \<Rightarrow> Inr (min_from key x rest))"

text \<open>Float division: a zero divisor raises.\<close>

definition py_div :: "real \<Rightarrow> real \<Rightarrow> error + real" where
  "py_div a b = (if b = 0 then Inl ZeroDivisionError else Inr (a / b))"

subsection \<open>The mesh and the calibration tables\<close>

text \<open>
  What the engine reads of a \<^verbatim>\<open>trimesh.Trimesh\<close>: \<^verbatim>\<open>bounds\<close> (the minimal and the maximal
  corner), \<^verbatim>\<open>volume\<close> (signed), \<^verbatim>\<open>area\<close>, \<^verbatim>\<open>convex_hull.volume\<close>, \<^verbatim>\<open>len(faces)\<close> and
  \<^verbatim>\<open>len(edges)\<close>.
\<close>

record mesh =
  mesh_bounds :: "(real \<times> real \<times> real) \<times> (real \<times> real \<times> real)"
  mesh_volume :: real
  mesh_area :: real
  hull_volume :: real
  n_faces :: nat
  n_edges :: nat

definition aluminum_density :: real where "aluminum_density = 2.7"
definition aluminum_price_per_kg :: real where "aluminum_price_per_kg = 5.0"

text \<open>A stock block \<^verbatim>\<open>[length, width, height]\<close> is a triple of integers.\<close>

type_synonym block = "int \<times> int \<times> int"

definition block_sizes :: "block list" where
  "block_sizes =
     [(25, 25, 25), (50, 50, 50), (75, 75, 75),
      (100, 100, 100), (125, 125, 125), (150, 125, 125), (150, 150, 150), (175, 150, 150),
      (200, 150, 150), (200, 200, 150), (200, 200, 200),
      (250, 200, 200), (250, 250, 200), (250, 250, 250), (300, 250, 250), (300, 300, 250),
      (300, 300, 300),
      (400, 300, 300), (400, 400, 300), (500, 400, 400), (600, 500, 500)]"

definition coarse_mrr :: real where "coarse_mrr = 350"
definition medium_mrr :: real where "medium_mrr = 100"
definition fine_mrr :: real where "fine_mrr = 20"

definition coarse_cost_per_mm3 :: real where "coarse_cost_per_mm3 = 0.00011"
definition medium_cost_per_mm3 :: real where "medium_cost_per_mm3 = 0.00039"
definition fine_cost_per_mm3 :: real where "fine_cost_per_mm3 = 0.00175"

definition min_price_per_part :: real where "min_price_per_part = 200"

definition complexity_calibration :: "string \<rightharpoonup> real" where
  "complexity_calibration = map_of [(''low'', 0.85), (''medium'', 1.0), (''high'', 1.35)]"

definition size_calibration :: "string \<rightharpoonup> real" where
  "size_calibration = map_of [(''small'', 1.15), (''medium'', 1.0), (''large'', 0.9)]"

text \<open>\<^verbatim>\<open>d.get(k, dflt)\<close>\<close>

definition dict_get :: "('k \<rightharpoonup> 'v) \<Rightarrow> 'k \<Rightarrow> 'v \<Rightarrow> 'v" where
  "dict_get d k dflt = (case d k of Some v \<Rightarrow> v | None \<Rightarrow> dflt)"

record labor_rates =
  rate_cad_cam_programming :: real
  rate_machine_setup :: real
  rate_tool_setup :: real
  rate_quality_inspection :: real
  rate_deburring_finishing :: real
  rate_project_management :: real

definition labor_rates :: labor_rates where
  "labor_rates = \<lparr> rate_cad_cam_programming = 110.0, rate_machine_setup = 65.0,
                    rate_tool_setup = 55.0, rate_quality_inspection = 65.0,
                    rate_deburring_finishing = 45.0, rate_project_management = 85.0 \<rparr>"

definition base_setup_time :: real where "base_setup_time = 0.4"

record expedited_config =
  multiplier :: real
  max_days :: int
  description :: string

definition expedited_options :: "string \<rightharpoonup> expedited_config" where
  "expedited_options = map_of
     [(''5_days'', \<lparr> multiplier = 1.3, max_days = 5, description = ''5 business days'' \<rparr>),
      (''4_days'', \<lparr> multiplier = 1.6, max_days = 4, description = ''4 business days'' \<rparr>),
      (''3_days'', \<lparr> multiplier = 2.0, max_days = 3, description = ''3 business days'' \<rparr>)]"

subsection \<open>Bounding box and volumes\<close>

record bounding_box =
  length_bb :: real
  width :: real
  height :: real
  x_min :: real
  y_min :: real
  z_min :: real
  x_max :: real
  y_max :: real
  z_max :: real

definition get_bounding_box :: "mesh \<Rightarrow> bounding_box" where
  "get_bounding_box mesh =
     (case mesh_bounds mesh of ((x0, y0, z0), (x1, y1, z1)) \<Rightarrow>
        \<lparr> length_bb = x1 - x0, width = y1 - y0, height = z1 - z0,
          x_min = x0, y_min = y0, z_min = z0, x_max = x1, y_max = y1, z_max = z1 \<rparr>)"

text \<open>
  The dictionary of volumes. \<^verbatim>\<open>calculate_volumes\<close> fills three keys; \<^verbatim>\<open>calculate_costs\<close>
  adds \<^verbatim>\<open>"block_volume"\<close> later, so that key is optional.
\<close>

record volumes =
  part_volume :: real
  convex_hull_volume :: real
  shrink_wrap_volume :: real
  block_volume_opt :: "real option"

definition calculate_volumes :: "mesh \<Rightarrow> volumes" where
  "calculate_volumes mesh =
     (let part_volume = \<bar>mesh_volume mesh\<bar>;
          convex_hull_volume = \<bar>hull_volume mesh\<bar>;
          shrink_wrap_volume = convex_hull_volume * 0.8
      in \<lparr> part_volume = part_volume, convex_hull_volume = convex_hull_volume,
           shrink_wrap_volume = shrink_wrap_volume, block_volume_opt = None \<rparr>)"

subsection \<open>Stock selection\<close>

definition sorted_dims :: "'a::linorder \<times> 'a \<times> 'a \<Rightarrow> 'a list" where
  "sorted_dims d = (case d of (a, b, c) \<Rightarrow> sort [a, b, c])"

text \<open>\<^verbatim>\<open>all(d <= b for d, b in zip(sorted_dimensions, sorted_block))\<close>\<close>

definition fits :: "real \<times> real \<times> real \<Rightarrow> block \<Rightarrow> bool" where
  "fits dimensions block =
     list_all (\<lambda>(d, b). d \<le> real_of_int b) (zip (sorted_dims dimensions) (sorted_dims block))"

definition block_volume :: "block \<Rightarrow> int" where
  "block_volume block = (case block of (b0, b1, b2) \<Rightarrow> b0 * b1 * b2)"

definition waste_ratio :: "real \<times> real \<times> real \<Rightarrow> block \<Rightarrow> real" where
  "waste_ratio dimensions block =
     (case dimensions of (d0, d1, d2) \<Rightarrow>
        let block_volume = block_volume block;
            part_volume = d0 * d1 * d2
        in (real_of_int block_volume - part_volume) / real_of_int block_volume)"

text \<open>
  The entries of \<^verbatim>\<open>fitting_blocks\<close> are the tuples
  \<^verbatim>\<open>(block, waste_ratio, block_volume)\<close>. The divisor of the waste ratio is the volume of
  a catalogue block, a positive constant (\<open>block_volume_pos\<close> below), so that division
  cannot raise. \<^verbatim>\<open>min\<close> raises on an empty list; the result \<open>Inr None\<close> is the source's
  \<^verbatim>\<open>return None\<close>.
\<close>

definition find_smallest_fitting_block :: "real \<times> real \<times> real \<Rightarrow> error + block option" where
  "find_smallest_fitting_block dimensions =
     (let fitting_blocks =
            map (\<lambda>block. (block, waste_ratio dimensions block, block_volume block))
              (filter (\<lambda>block. fits dimensions block \<and> waste_ratio dimensions block \<le> 0.7)
                 block_sizes);
          fitting_blocks =
            (if fitting_blocks = []
             then map (\<lambda>block. (block, 0.8, block_volume block))
                    (filter (\<lambda>block. fits dimensions block) block_sizes)
             else fitting_blocks)
      in if fitting_blocks = [] then Inr None
         else
           (let optimal_blocks =
                  filter (\<lambda>b. 0.2 \<le> fst (snd b) \<and> fst (snd b) \<le> 0.6) fitting_blocks
            in if optimal_blocks \<noteq> []
               then (case py_min (\<lambda>x. (\<bar>fst (snd x) - 0.3\<bar>, snd (snd x))) optimal_blocks of
                       Inl e \<Rightarrow> Inl e | Inr x \<Rightarrow> Inr (Some (fst x)))
               else (case py_min (\<lambda>x. snd (snd x)) fitting_blocks of
                       Inl e \<Rightarrow> Inl e | Inr x \<Rightarrow> Inr (Some (fst x)))))"

subsection \<open>Feature detection and complexity\<close>

record features =
  holes :: int
  cavities :: int
  sharp_edges :: int
  pockets :: int
  feature_score :: real

text \<open>
  The body of the \<^verbatim>\<open>try\<close> block, on the dictionary initialised to zeros. The dictionary
  is updated in place, so when a statement raises, the entries written before it stay:
  the error branch carries the dictionary as it is at that point. The only statement
  that can raise is the unguarded division by the hull volume.
\<close>

definition detect_features_try :: "mesh \<Rightarrow> features \<Rightarrow> (error \<times> features) + features" where
  "detect_features_try mesh features0 =
     (let volume = \<bar>mesh_volume mesh\<bar>;
          surface_area = mesh_area mesh;
          sa_volume_ratio = (if volume > 0 then surface_area / volume else 0);
          features1 = (if sa_volume_ratio > 0.15
                       then features0\<lparr> holes := max 1 (min 5 (py_int (sa_volume_ratio * 5))) \<rparr>
                       else features0)
      in case py_div volume \<bar>hull_volume mesh\<bar> of
           Inl e \<Rightarrow> Inl (e, features1)
         | Inr q \<Rightarrow>
            (let cavity_ratio = 1 - q;
                 features2 = (if cavity_ratio > 0.2
                              then features1\<lparr> cavities := max 1 (min 3 (py_int (cavity_ratio * 3))) \<rparr>
                              else features1);
                 edge_face_ratio = (if n_faces mesh > 0
                                    then real (n_edges mesh) / real (n_faces mesh) else 0);
                 features3 = (if edge_face_ratio > 3.0
                              then features2\<lparr> sharp_edges := max 1 (min 4 (py_int (edge_face_ratio * 1.5))) \<rparr>
                              else features2);
                 face_count = n_faces mesh;
                 features4 = (if face_count > 2000
                              then features3\<lparr> pockets := max 1 (min 8 (py_int (real face_count / 1000))) \<rparr>
                              else if face_count > 1000
                              then features3\<lparr> pockets := max 1 (min 4 (py_int (real face_count / 800))) \<rparr>
                              else features3)
             in Inr (features4\<lparr> feature_score :=
                       real_of_int (holes features4) * 0.8 + real_of_int (cavities features4) * 0.6
                       + real_of_int (sharp_edges features4) * 0.4
                       + real_of_int (pockets features4) * 0.5 \<rparr>)))"

definition detect_features :: "mesh \<Rightarrow> features" where
  "detect_features mesh =
     (let features = \<lparr> holes = 0, cavities = 0, sharp_edges = 0, pockets = 0, feature_score = 0 \<rparr>
      in case detect_features_try mesh features of
           Inr features' \<Rightarrow> features'
         | Inl (e, features') \<Rightarrow> features'\<lparr> feature_score := 0 \<rparr>)"

definition calculate_complexity_score :: "mesh \<Rightarrow> real" where
  "calculate_complexity_score mesh =
     (let features = detect_features mesh;
          sa_volume_ratio = (if \<bar>mesh_volume mesh\<bar> > 0 then mesh_area mesh / \<bar>mesh_volume mesh\<bar> else 0);
          sa_complexity = min (sa_volume_ratio * 0.15) 3.0;
          face_count = n_faces mesh;
          face_complexity = min ((real face_count / 1000) * 2.0) 4.0;
          edge_count = n_edges mesh;
          edge_complexity = min ((real edge_count / 1000) * 2.0) 3.0;
          feature_complexity = min (feature_score features * 0.3) 2.0;
          complexity = sa_complexity + face_complexity + edge_complexity + feature_complexity
      in min complexity 8.0)"

text \<open>
  The four terms that \<^verbatim>\<open>calculate_complexity_score\<close> adds, each the local variable of that
  name in the source, as functions of the mesh.
\<close>

definition sa_complexity :: "mesh \<Rightarrow> real" where
  "sa_complexity mesh =
     min ((if \<bar>mesh_volume mesh\<bar> > 0 then mesh_area mesh / \<bar>mesh_volume mesh\<bar> else 0) * 0.15) 3.0"

definition face_complexity :: "mesh \<Rightarrow> real" where
  "face_complexity mesh = min ((real (n_faces mesh) / 1000) * 2.0) 4.0"

definition edge_complexity :: "mesh \<Rightarrow> real" where
  "edge_complexity mesh = min ((real (n_edges mesh) / 1000) * 2.0) 3.0"

definition feature_complexity :: "mesh \<Rightarrow> real" where
  "feature_complexity mesh = min (feature_score (detect_features mesh) * 0.3) 2.0"

definition get_complexity_category :: "real \<Rightarrow> string" where
  "get_complexity_category score =
     (if score < 4.0 then ''low'' else if score < 6.0 then ''medium'' else ''high'')"

definition get_size_category :: "real \<Rightarrow> string" where
  "get_size_category len = (if len < 50 then ''small'' else if len < 200 then ''medium'' else ''large'')"

subsection \<open>Quantity discount\<close>

definition tiers :: "(int \<times> real) list" where
  "tiers = [(1, 1.0), (2, 0.95), (3, 0.92), (4, 0.90), (5, 0.88), (10, 0.85),
            (15, 0.82), (20, 0.80), (25, 0.78), (50, 0.75), (100, 0.72)]"

text \<open>
  The loop \<^verbatim>\<open>for i in range(len(tiers) - 1)\<close> looks at each pair of adjacent control points
  and returns from the first pair whose closed interval holds the quantity; \<open>None\<close> is the
  loop running to its end.
\<close>

fun tier_loop :: "(int \<times> real) list \<Rightarrow> int \<Rightarrow> real option" where
  "tier_loop ((lower_qty, lower_mult) # (upper_qty, upper_mult) # rest) quantity =
     (if lower_qty \<le> quantity \<and> quantity \<le> upper_qty
      then (let t = real_of_int (quantity - lower_qty) / real_of_int (upper_qty - lower_qty)
            in Some (lower_mult + (upper_mult - lower_mult) * t))
      else tier_loop ((upper_qty, upper_mult) # rest) quantity)"
| "tier_loop _ quantity = None"

definition get_quantity_multiplier :: "int \<Rightarrow> real" where
  "get_quantity_multiplier quantity =
     (if quantity < 1 then snd (hd tiers)
      else if quantity \<ge> 5000 then snd (last tiers)
      else (case tier_loop tiers quantity of
              Some m \<Rightarrow> m
            | None \<Rightarrow> snd (hd tiers)))"

definition get_quantity_discount_percentage :: "int \<Rightarrow> real" where
  "get_quantity_discount_percentage quantity =
     (let multiplier = get_quantity_multiplier quantity
      in if multiplier < 1.0 then (1.0 - multiplier) * 100 else 0.0)"

subsection \<open>Machine time and labour\<close>

text \<open>\<^verbatim>\<open>volumes.get(key, 0)\<close>: only \<^verbatim>\<open>"block_volume"\<close> can be absent.\<close>

definition estimate_machine_time :: "volumes \<Rightarrow> real" where
  "estimate_machine_time volumes =
     (let coarse_volume = (case block_volume_opt volumes of Some v \<Rightarrow> v | None \<Rightarrow> 0)
                          - convex_hull_volume volumes;
          medium_volume = convex_hull_volume volumes - shrink_wrap_volume volumes;
          fine_volume = shrink_wrap_volume volumes - part_volume volumes;
          coarse_time = (if coarse_mrr > 0 then coarse_volume / coarse_mrr else 0);
          medium_time = (if medium_mrr > 0 then medium_volume / medium_mrr else 0);
          fine_time = (if fine_mrr > 0 then fine_volume / fine_mrr else 0)
      in coarse_time + medium_time + fine_time)"

record labor_costs =
  cad_cam_programming :: real
  machine_setup :: real
  tool_setup :: real
  quality_inspection :: real
  deburring_finishing :: real
  project_management :: real
  total_labor_cost :: real
  total_hours :: real

definition calculate_labor_costs :: "mesh \<Rightarrow> real \<Rightarrow> int \<Rightarrow> labor_costs" where
  "calculate_labor_costs mesh complexity_score quantity =
     (let base_setup_hours = base_setup_time;
          complexity_factor = (if complexity_score < 3 then 0.8
                               else if complexity_score < 7 then 1.0 else 1.4);
          cad_cam_hours = base_setup_hours * 0.4 * complexity_factor;
          machine_setup_hours = base_setup_hours * 0.3 * complexity_factor;
          tool_setup_hours = base_setup_hours * 0.3 * complexity_factor;
          surface_area_m2 = mesh_area mesh / 1000000;
          qc_hours = max 0.1 (surface_area_m2 * 0.5) * complexity_factor;
          finishing_hours = max 0.1 (surface_area_m2 * 0.3) * complexity_factor;
          project_mgmt_hours = 0.2 + (complexity_score / 20);
          c_cad_cam = cad_cam_hours * rate_cad_cam_programming labor_rates;
          c_machine = machine_setup_hours * rate_machine_setup labor_rates;
          c_tool = tool_setup_hours * rate_tool_setup labor_rates;
          c_quality = qc_hours * rate_quality_inspection labor_rates;
          c_deburring = finishing_hours * rate_deburring_finishing labor_rates;
          c_project = project_mgmt_hours * rate_project_management labor_rates;
          total_labor_cost =
            (if quantity > 1
             then (let per_part_costs = c_quality + c_deburring
                   in c_cad_cam + c_machine + c_tool + c_project
                      + (per_part_costs * real_of_int quantity))
             else 0 + c_cad_cam + c_machine + c_tool + c_quality + c_deburring + c_project)
      in \<lparr> cad_cam_programming = c_cad_cam, machine_setup = c_machine, tool_setup = c_tool,
           quality_inspection = c_quality, deburring_finishing = c_deburring,
           project_management = c_project, total_labor_cost = total_labor_cost,
           total_hours = cad_cam_hours + machine_setup_hours + tool_setup_hours
                         + qc_hours + finishing_hours + project_mgmt_hours \<rparr>)"

subsection \<open>The quote\<close>

record breakdown =
  coarse_milling_cost :: real
  medium_milling_cost :: real
  fine_milling_cost :: real
  material_cost_bd :: real
  labor_costs :: labor_costs
  total_labor_cost_bd :: real
  complexity_multiplier :: real
  size_multiplier :: real
  quantity_multiplier :: real
  block_size :: block
  block_volume_bd :: real
  coarse_volume :: real
  medium_volume :: real
  fine_volume :: real
  expedited_multiplier_bd :: real
  expedited_description :: "string option"

record QuoteResult =
  per_unit_cost :: real
  lead_time_days :: int
  material_cost :: real
  machine_time_cost :: real
  total_cost :: real
  bounding_box :: bounding_box
  volume :: real
  surface_area :: real
  complexity_score :: real
  breakdown :: breakdown
  expedited :: bool
  expedited_multiplier :: real

text \<open>
  The test \<^verbatim>\<open>expedited and expedited in self.expedited_options\<close> followed by the lookup
  \<^verbatim>\<open>self.expedited_options[expedited]\<close>: \<^verbatim>\<open>None\<close> and the empty string are falsy.
\<close>

definition expedited_lookup :: "string option \<Rightarrow> expedited_config option" where
  "expedited_lookup tier =
     (case tier of
        None \<Rightarrow> None
      | Some s \<Rightarrow> if s \<noteq> [] \<and> s \<in> dom expedited_options then expedited_options s else None)"

text \<open>
  \<^verbatim>\<open>calculate_costs(mesh, quantity, expedited)\<close>; the parameter \<^verbatim>\<open>expedited\<close> is \<open>tier\<close>
  here and \<^verbatim>\<open>part_name\<close>, which is never read, is left out. The function is written in
  two parts. \<open>quote_for_block\<close> is its body from the line
  \<^verbatim>\<open>block_volume = best_block[0] * best_block[1] * best_block[2]\<close> to the end, with the
  chosen block as a parameter; \<open>calculate_costs\<close> is the part before it, up to the
  \<^verbatim>\<open>raise\<close>. The lead time computed from the machine time is overwritten by the standard
  lead time before it is used, as in the source.
\<close>

definition quote_for_block :: "mesh \<Rightarrow> int \<Rightarrow> string option \<Rightarrow> block \<Rightarrow> QuoteResult" where
  "quote_for_block mesh quantity tier best_block =
     (let bounding_box = get_bounding_box mesh;
          volumes = calculate_volumes mesh;
          complexity_score = calculate_complexity_score mesh;
          block_volume = real_of_int (block_volume best_block);
          volumes = volumes\<lparr> block_volume_opt := Some block_volume \<rparr>;
          coarse_volume = max 0 (block_volume - convex_hull_volume volumes);
          medium_volume = max 0 (convex_hull_volume volumes - shrink_wrap_volume volumes);
          fine_volume = max 0 (shrink_wrap_volume volumes - part_volume volumes);
          coarse_cost = coarse_volume * coarse_cost_per_mm3;
          medium_cost = medium_volume * medium_cost_per_mm3;
          fine_cost = fine_volume * fine_cost_per_mm3;
          machine_time_cost = coarse_cost + medium_cost + fine_cost;
          material_volume_cm3 = part_volume volumes / 1000;
          material_mass_kg = material_volume_cm3 * aluminum_density / 1000;
          material_cost = material_mass_kg * aluminum_price_per_kg;
          labor_costs = calculate_labor_costs mesh complexity_score quantity;
          total_labor_cost = total_labor_cost labor_costs;
          complexity_multiplier =
            dict_get complexity_calibration (get_complexity_category complexity_score) 1.0;
          machine_time_cost = machine_time_cost * complexity_multiplier;
          size_multiplier =
            dict_get size_calibration (get_size_category (length_bb bounding_box)) 1.0;
          machine_time_cost = machine_time_cost * size_multiplier;
          quantity_multiplier = get_quantity_multiplier quantity;
          total_cost_per_unit =
            (machine_time_cost + material_cost + total_labor_cost) * quantity_multiplier;
          total_cost_per_unit =
            (if total_cost_per_unit < min_price_per_part then min_price_per_part
             else total_cost_per_unit);
          (expedited_multiplier, expedited_description, total_cost_per_unit) =
            (case expedited_lookup tier of
               Some expedited_config \<Rightarrow>
                 (multiplier expedited_config, Some (description expedited_config),
                  total_cost_per_unit * multiplier expedited_config)
             | None \<Rightarrow> (1.0, None, total_cost_per_unit));
          machine_time_hours = estimate_machine_time volumes / 3600;
          setup_time_hours = base_setup_time * 0.5;
          finishing_time_hours = machine_time_hours * 0.05;
          qc_time_hours = (machine_time_hours + setup_time_hours + finishing_time_hours) * 0.03;
          total_time_per_part =
            machine_time_hours + setup_time_hours + finishing_time_hours + qc_time_hours;
          total_time_hours =
            (if quantity = 1 then total_time_per_part
             else setup_time_hours
                  + (machine_time_hours + finishing_time_hours + qc_time_hours)
                    * real_of_int quantity);
          work_hours_per_day = 10;
          efficiency_factor = 0.9;
          buffer_factor = 1.1;
          effective_hours_per_day = work_hours_per_day * efficiency_factor;
          adjusted_total_hours = total_time_hours * buffer_factor;
          lead_time_days = max 1 \<lceil>adjusted_total_hours / effective_hours_per_day\<rceil>;
          standard_lead_time =
            (if complexity_score < 5 then 7 else if complexity_score < 8 then 10 else 11);
          lead_time_days = standard_lead_time;
          lead_time_days =
            (case expedited_lookup tier of
               Some expedited_config \<Rightarrow>
                 (if tier = Some ''3_days'' then 3
                  else if tier = Some ''4_days'' then 4
                  else if tier = Some ''5_days'' then 5
                  else lead_time_days)
             | None \<Rightarrow> lead_time_days)
      in \<lparr> per_unit_cost = total_cost_per_unit,
               lead_time_days = lead_time_days,
               material_cost = material_cost,
               machine_time_cost = machine_time_cost,
               total_cost = total_cost_per_unit * real_of_int quantity,
               bounding_box = bounding_box,
               volume = part_volume volumes,
               surface_area = mesh_area mesh,
               complexity_score = complexity_score,
               breakdown =
                 \<lparr> coarse_milling_cost = coarse_cost,
                   medium_milling_cost = medium_cost,
                   fine_milling_cost = fine_cost,
                   material_cost_bd = material_cost,
                   labor_costs = labor_costs,
                   total_labor_cost_bd = total_labor_cost,
                   complexity_multiplier = complexity_multiplier,
                   size_multiplier = size_multiplier,
                   quantity_multiplier = quantity_multiplier,
                   block_size = best_block,
                   block_volume_bd = block_volume,
                   coarse_volume = coarse_volume,
                   medium_volume = medium_volume,
                   fine_volume = fine_volume,
                   expedited_multiplier_bd = expedited_multiplier,
                   expedited_description = expedited_description \<rparr>,
               expedited = (tier \<noteq> None),
               expedited_multiplier = expedited_multiplier \<rparr>)"

definition calculate_costs :: "mesh \<Rightarrow> int \<Rightarrow> string option \<Rightarrow> error + QuoteResult" where
  "calculate_costs mesh quantity tier =
     (let bounding_box = get_bounding_box mesh;
          dimensions = (length_bb bounding_box, width bounding_box, height bounding_box)
      in case find_smallest_fitting_block dimensions of
           Inl e \<Rightarrow> Inl e
         | Inr None \<Rightarrow> Inl (ValueError ''Part is too large for available block sizes'')
         | Inr (Some best_block) \<Rightarrow> Inr (quote_for_block mesh quantity tier best_block))"

section \<open>Notions of the specification\<close>

text \<open>
  The composite cost of a quote, before the price floor: machine time, material and
  labour, times the quantity multiplier, read off the fields of the result.
\<close>

definition composite_cost :: "QuoteResult \<Rightarrow> real" where
  "composite_cost r =
     (machine_time_cost r + material_cost r + total_labor_cost_bd (breakdown r))
     * quantity_multiplier (breakdown r)"

definition milling_cost_sum :: "breakdown \<Rightarrow> real" where
  "milling_cost_sum b = coarse_milling_cost b + medium_milling_cost b + fine_milling_cost b"

definition standard_lead_time :: "real \<Rightarrow> int" where
  "standard_lead_time score = (if score < 5 then 7 else if score < 8 then 10 else 11)"

text \<open>The part dimensions that \<^verbatim>\<open>calculate_costs\<close> hands to the stock selector.\<close>

definition part_dimensions :: "mesh \<Rightarrow> real \<times> real \<times> real" where
  "part_dimensions mesh =
     (length_bb (get_bounding_box mesh), width (get_bounding_box mesh),
      height (get_bounding_box mesh))"

text \<open>The waste band that the selector prefers, and the key it minimises there.\<close>

definition in_band :: "real \<Rightarrow> bool" where
  "in_band w = (0.2 \<le> w \<and> w \<le> 0.6)"

definition band_key :: "real \<times> real \<times> real \<Rightarrow> block \<Rightarrow> real \<times> int" where
  "band_key dimensions block = (\<bar>waste_ratio dimensions block - 0.3\<bar>, block_volume block)"

text \<open>
  The size multiplier as the specification words it: keyed on the longest edge of the
  bounding box.
\<close>

definition longest_edge :: "bounding_box \<Rightarrow> real" where
  "longest_edge bb = max (length_bb bb) (max (width bb) (height bb))"

definition spec_size_multiplier :: "mesh \<Rightarrow> real" where
  "spec_size_multiplier mesh =
     (let e = longest_edge (get_bounding_box mesh)
      in if e < 50 then 1.15 else if e \<ge> 200 then 0.9 else 1.0)"

text \<open>
  The hole and pocket counts as the specification words them: rounded to the nearest
  integer, then clamped.
\<close>

definition spec_holes :: "mesh \<Rightarrow> int" where
  "spec_holes mesh =
     (let ratio = mesh_area mesh / mesh_volume mesh
      in if ratio > 0.15 then max 1 (min 5 (round (ratio * 5))) else 0)"

definition spec_pockets :: "mesh \<Rightarrow> int" where
  "spec_pockets mesh =
     (let face_count = n_faces mesh
      in if face_count > 2000 then max 1 (min 8 (round (real face_count / 1000)))
         else if face_count > 1000 then max 1 (min 4 (round (real face_count / 800)))
         else 0)"

subsection \<open>Example meshes\<close>

text \<open>
  The end-to-end example of the specification: a part with bounding box 100 x 80 x 20 mm,
  volume 150000, surface area 30000, hull volume 160000, 500 faces and 1500 edges.
\<close>

definition plate_example :: mesh where
  "plate_example = \<lparr> mesh_bounds = ((0, 0, 0), (100, 80, 20)), mesh_volume = 150000,
                      mesh_area = 30000, hull_volume = 160000, n_faces = 500, n_edges = 1500 \<rparr>"

text \<open>A bar of 10 x 300 x 10 mm, its long edge along the y axis.\<close>

definition bar_example :: mesh where
  "bar_example = \<lparr> mesh_bounds = ((0, 0, 0), (10, 300, 10)), mesh_volume = 30000,
                    mesh_area = 12200, hull_volume = 30000, n_faces = 12, n_edges = 36 \<rparr>"

text \<open>A box of 10 x 20 x 30 mm.\<close>

definition box_example :: mesh where
  "box_example = \<lparr> mesh_bounds = ((0, 0, 0), (10, 20, 30)), mesh_volume = 6000,
                    mesh_area = 2200, hull_volume = 6000, n_faces = 12, n_edges = 36 \<rparr>"

text \<open>A part 601 mm long: longer than the longest edge of every stock block.\<close>

definition oversize_example :: mesh where
  "oversize_example = \<lparr> mesh_bounds = ((0, 0, 0), (601, 1, 1)), mesh_volume = 601,
                         mesh_area = 2406, hull_volume = 601, n_faces = 12, n_edges = 36 \<rparr>"

section \<open>Properties\<close>

subsection \<open>The shape of a quote\<close>

lemma expedited_lookup_cases:
  "expedited_lookup tier = None \<and> tier \<noteq> Some ''5_days'' \<and> tier \<noteq> Some ''4_days'' \<and> tier \<noteq> Some ''3_days'' \<or>
   (tier = Some ''5_days'' \<and> expedited_lookup tier = Some \<lparr> multiplier = 1.3, max_days = 5, description = ''5 business days'' \<rparr>) \<or>
   (tier = Some ''4_days'' \<and> expedited_lookup tier = Some \<lparr> multiplier = 1.6, max_days = 4, description = ''4 business days'' \<rparr>) \<or>
   (tier = Some ''3_days'' \<and> expedited_lookup tier = Some \<lparr> multiplier = 2.0, max_days = 3, description = ''3 business days'' \<rparr>)"
  by (auto simp: expedited_lookup_def expedited_options_def split: option.splits if_splits)

lemma calculate_costs_cases:
  "(\<exists>e. find_smallest_fitting_block (part_dimensions mesh) = Inl e \<and> calculate_costs mesh quantity tier = Inl e)
   \<or> (find_smallest_fitting_block (part_dimensions mesh) = Inr None
       \<and> calculate_costs mesh quantity tier = Inl (ValueError ''Part is too large for available block sizes''))
   \<or> (\<exists>b. find_smallest_fitting_block (part_dimensions mesh) = Inr (Some b)
          \<and> calculate_costs mesh quantity tier = Inr (quote_for_block mesh quantity tier b))"
  by (simp add: calculate_costs_def part_dimensions_def Let_def split: sum.split option.split)

lemma calculate_costs_InrD:
  assumes "calculate_costs mesh quantity tier = Inr r"
  obtains b where "find_smallest_fitting_block (part_dimensions mesh) = Inr (Some b)"
    and "r = quote_for_block mesh quantity tier b"
  using assms calculate_costs_cases[of mesh quantity tier] by auto

lemma qfb_per_unit_cost:
  "per_unit_cost (quote_for_block mesh quantity tier b) =
     (if composite_cost (quote_for_block mesh quantity tier b) < min_price_per_part then min_price_per_part
      else composite_cost (quote_for_block mesh quantity tier b))
     * expedited_multiplier (quote_for_block mesh quantity tier b)"
  by (cases "expedited_lookup tier") (simp_all add: quote_for_block_def Let_def composite_cost_def)

lemma qfb_expedited_multiplier:
  "expedited_multiplier (quote_for_block mesh quantity tier b) =
     (case expedited_lookup tier of Some c \<Rightarrow> multiplier c | None \<Rightarrow> 1)"
  by (cases "expedited_lookup tier") (simp_all add: quote_for_block_def Let_def)

lemma qfb_lead_time_days:
  "lead_time_days (quote_for_block mesh quantity tier b) =
     (case expedited_lookup tier of
        Some c \<Rightarrow> (if tier = Some ''3_days'' then 3 else if tier = Some ''4_days'' then 4
                   else if tier = Some ''5_days'' then 5
                   else standard_lead_time (calculate_complexity_score mesh))
      | None \<Rightarrow> standard_lead_time (calculate_complexity_score mesh))"
  by (cases "expedited_lookup tier") (simp_all add: quote_for_block_def Let_def standard_lead_time_def)

lemma qfb_simple_fields:
  "complexity_score (quote_for_block mesh quantity tier b) = calculate_complexity_score mesh"
  "total_cost (quote_for_block mesh quantity tier b) =
     per_unit_cost (quote_for_block mesh quantity tier b) * real_of_int quantity"
  "bounding_box (quote_for_block mesh quantity tier b) = get_bounding_box mesh"
  "block_size (breakdown (quote_for_block mesh quantity tier b)) = b"
  "block_volume_bd (breakdown (quote_for_block mesh quantity tier b)) = real_of_int (block_volume b)"
  "expedited (quote_for_block mesh quantity tier b) = (tier \<noteq> None)"
  by (cases "expedited_lookup tier"; simp add: quote_for_block_def Let_def)+

lemma qfb_machine_time_cost:
  "machine_time_cost (quote_for_block mesh quantity tier b) =
     milling_cost_sum (breakdown (quote_for_block mesh quantity tier b))
     * complexity_multiplier (breakdown (quote_for_block mesh quantity tier b))
     * size_multiplier (breakdown (quote_for_block mesh quantity tier b))"
  by (cases "expedited_lookup tier") (simp_all add: quote_for_block_def Let_def milling_cost_sum_def)

lemma qfb_multipliers:
  "size_multiplier (breakdown (quote_for_block mesh quantity tier b)) =
     dict_get size_calibration (get_size_category (length_bb (get_bounding_box mesh))) 1"
  "complexity_multiplier (breakdown (quote_for_block mesh quantity tier b)) =
     dict_get complexity_calibration (get_complexity_category (calculate_complexity_score mesh)) 1"
  "quantity_multiplier (breakdown (quote_for_block mesh quantity tier b)) = get_quantity_multiplier quantity"
  by (cases "expedited_lookup tier"; simp add: quote_for_block_def Let_def)+

lemma qfb_milling_volumes:
  "coarse_volume (breakdown (quote_for_block mesh quantity tier b)) =
     max 0 (real_of_int (block_volume b) - convex_hull_volume (calculate_volumes mesh))"
  "medium_volume (breakdown (quote_for_block mesh quantity tier b)) =
     max 0 (convex_hull_volume (calculate_volumes mesh) - shrink_wrap_volume (calculate_volumes mesh))"
  "fine_volume (breakdown (quote_for_block mesh quantity tier b)) =
     max 0 (shrink_wrap_volume (calculate_volumes mesh) - part_volume (calculate_volumes mesh))"
  by (cases "expedited_lookup tier"; simp add: quote_for_block_def Let_def)+

lemma qfb_milling_costs:
  "coarse_milling_cost (breakdown (quote_for_block mesh quantity tier b)) =
     coarse_volume (breakdown (quote_for_block mesh quantity tier b)) * coarse_cost_per_mm3"
  "medium_milling_cost (breakdown (quote_for_block mesh quantity tier b)) =
     medium_volume (breakdown (quote_for_block mesh quantity tier b)) * medium_cost_per_mm3"
  "fine_milling_cost (breakdown (quote_for_block mesh quantity tier b)) =
     fine_volume (breakdown (quote_for_block mesh quantity tier b)) * fine_cost_per_mm3"
  by (cases "expedited_lookup tier"; simp add: quote_for_block_def Let_def)+

subsection \<open>The example meshes, evaluated\<close>

lemmas block_eval_defs = find_smallest_fitting_block_def block_sizes_def fits_def sorted_dims_def
  waste_ratio_def block_volume_def py_min_def part_dimensions_def get_bounding_box_def

lemma plate_block:
  "find_smallest_fitting_block (part_dimensions plate_example) = Inr (Some (100, 100, 100))"
  by (simp add: block_eval_defs plate_example_def)

lemma bar_block:
  "find_smallest_fitting_block (part_dimensions bar_example) = Inr (Some (300, 250, 250))"
  by (simp add: block_eval_defs bar_example_def)

lemma box_block:
  "find_smallest_fitting_block (part_dimensions box_example) = Inr (Some (50, 50, 50))"
  by (simp add: block_eval_defs box_example_def)

lemma plate_quote:
  "calculate_costs plate_example quantity tier = Inr (quote_for_block plate_example quantity tier (100, 100, 100))"
  using calculate_costs_cases[of plate_example quantity tier] by (simp add: plate_block)

lemma bar_quote:
  "calculate_costs bar_example quantity tier = Inr (quote_for_block bar_example quantity tier (300, 250, 250))"
  using calculate_costs_cases[of bar_example quantity tier] by (simp add: bar_block)

lemma plate_features:
  "detect_features plate_example = \<lparr> holes = 1, cavities = 0, sharp_edges = 0, pockets = 0, feature_score = 0.8 \<rparr>"
  by (simp add: detect_features_def detect_features_try_def plate_example_def py_div_def py_int_def Let_def)

lemma plate_score: "calculate_complexity_score plate_example = 4.27"
  by (simp add: calculate_complexity_score_def plate_features Let_def) (simp add: plate_example_def)

lemma plate_per_unit_1: "per_unit_cost (quote_for_block plate_example 1 None (100,100,100)) = 200"
  by (simp add: quote_for_block_def Let_def plate_score expedited_lookup_def)
     (simp add: plate_example_def calculate_volumes_def block_volume_def coarse_cost_per_mm3_def 
         medium_cost_per_mm3_def fine_cost_per_mm3_def  aluminum_density_def aluminum_price_per_kg_def
         calculate_labor_costs_def Let_def base_setup_time_def labor_rates_def get_complexity_category_def
         complexity_calibration_def dict_get_def get_size_category_def size_calibration_def get_bounding_box_def
         get_quantity_multiplier_def tiers_def min_price_per_part_def)

lemma expedited_multiplier_ge_1: "1 \<le> expedited_multiplier (quote_for_block mesh quantity tier b)"
  using expedited_lookup_cases[of tier] by (auto simp: qfb_expedited_multiplier)

subsection \<open>Minimum by key\<close>

lemma min_from_in: "min_from key best xs \<in> set (best # xs)"
  by (induction xs arbitrary: best) auto

lemma min_from_le_best: "key (min_from key best xs) \<le> key best"
proof (induction xs arbitrary: best)
  case Nil
  show ?case by simp
next
  case (Cons x xs)
  have "key (min_from key (if key x < key best then x else best) xs)
        \<le> key (if key x < key best then x else best)"
    by (rule Cons.IH)
  also have "\<dots> \<le> key best" by (simp add: less_imp_le)
  finally show ?case by simp
qed

lemma min_from_le: "y \<in> set (best # xs) \<Longrightarrow> key (min_from key best xs) \<le> key y"
proof (induction xs arbitrary: best)
  case Nil
  then show ?case by simp
next
  case (Cons x xs)
  let ?b = "if key x < key best then x else best"
  have b: "key ?b \<le> key best" "key ?b \<le> key x" by auto
  from Cons.prems consider "y = best" | "y = x" | "y \<in> set xs" by auto
  then show ?case
  proof cases
    case 1
    with b(1) min_from_le_best[of key ?b xs] show ?thesis by simp
  next
    case 2
    with b(2) min_from_le_best[of key ?b xs] show ?thesis by simp
  next
    case 3
    then have "key (min_from key ?b xs) \<le> key y" by (intro Cons.IH) simp
    then show ?thesis by simp
  qed
qed

lemma py_min_nonempty:
  assumes "xs \<noteq> []"
  obtains x where "py_min key xs = Inr x" "x \<in> set xs" "\<forall>y\<in>set xs. key x \<le> key y"
proof -
  from assms obtain a rest where xs: "xs = a # rest" by (cases xs) auto
  show ?thesis
  proof (rule that[of "min_from key a rest"])
    show "py_min key xs = Inr (min_from key a rest)" by (simp add: py_min_def xs)
    show "min_from key a rest \<in> set xs" unfolding xs by (rule min_from_in)
    show "\<forall>y\<in>set xs. key (min_from key a rest) \<le> key y"
      unfolding xs using min_from_le[of _ a rest key] by blast
  qed
qed

subsection \<open>Stock selection: the cases of the result\<close>

lemma block_volume_pos: "b \<in> set block_sizes \<Longrightarrow> 0 < block_volume b"
  by (auto simp: block_sizes_def block_volume_def)

lemma length_sorted_dims: "length (sorted_dims d) = 3"
  by (cases d) (simp add: sorted_dims_def)

lemma fits_iff_dominates:
  "fits dims b \<longleftrightarrow> list_all2 (\<lambda>x y. x \<le> real_of_int y) (sorted_dims dims) (sorted_dims b)"
  by (auto simp: fits_def list_all2_iff list_all_iff length_sorted_dims)

lemma waste_ratio_volume_mono:
  assumes "waste_ratio dims b \<le> 0.7" "\<not> waste_ratio dims c \<le> 0.7"
    and "0 < block_volume b" "0 < block_volume c"
  shows "block_volume b \<le> block_volume c"
proof -
  obtain d0 d1 d2 where d: "dims = (d0, d1, d2)" by (cases dims) auto
  define p where "p = d0 * d1 * d2"
  define vb where "vb = real_of_int (block_volume b)"
  define vc where "vc = real_of_int (block_volume c)"
  have pos: "0 < vb" "0 < vc" using assms(3,4) by (simp_all add: vb_def vc_def)
  have "(vb - p) / vb \<le> 0.7" using assms(1) by (simp add: waste_ratio_def d p_def vb_def Let_def)
  then have 1: "vb - p \<le> 0.7 * vb" using pos(1) by (simp add: pos_divide_le_eq)
  have "\<not> (vc - p) / vc \<le> 0.7" using assms(2) by (simp add: waste_ratio_def d p_def vc_def Let_def)
  then have 2: "0.7 * vc < vc - p" using pos(2) by (simp add: pos_divide_le_eq not_le)
  from 1 2 have "vb < vc" by simp
  then show ?thesis by (simp add: vb_def vc_def)
qed

lemma find_smallest_fitting_block_cases:
  obtains
    (none) "find_smallest_fitting_block dims = Inr None" "\<forall>c\<in>set block_sizes. \<not> fits dims c"
  | (band) b where "find_smallest_fitting_block dims = Inr (Some b)" "b \<in> set block_sizes"
      "fits dims b" "in_band (waste_ratio dims b)"
      "\<forall>c\<in>set block_sizes. fits dims c \<and> in_band (waste_ratio dims c)
          \<longrightarrow> band_key dims b \<le> band_key dims c"
  | (fallback) b where "find_smallest_fitting_block dims = Inr (Some b)" "b \<in> set block_sizes"
      "fits dims b" "\<forall>c\<in>set block_sizes. fits dims c \<longrightarrow> \<not> in_band (waste_ratio dims c)"
      "\<forall>c\<in>set block_sizes. fits dims c \<longrightarrow> block_volume b \<le> block_volume c"
proof -
  define G where "G = filter (\<lambda>block. fits dims block \<and> waste_ratio dims block \<le> 0.7) block_sizes"
  define F where "F = filter (\<lambda>block. fits dims block) block_sizes"
  define FB where "FB = (if G = [] then map (\<lambda>block. (block, 0.8, block_volume block)) F
                         else map (\<lambda>block. (block, waste_ratio dims block, block_volume block)) G)"
  define opt where "opt = filter (\<lambda>b. 0.2 \<le> fst (snd b) \<and> fst (snd b) \<le> 0.6) FB"
  have res: "find_smallest_fitting_block dims =
      (if FB = [] then Inr None
       else if opt \<noteq> []
         then (case py_min (\<lambda>x. (\<bar>fst (snd x) - 0.3\<bar>, snd (snd x))) opt of
                 Inl e \<Rightarrow> Inl e | Inr x \<Rightarrow> Inr (Some (fst x)))
         else (case py_min (\<lambda>x. snd (snd x)) FB of
                 Inl e \<Rightarrow> Inl e | Inr x \<Rightarrow> Inr (Some (fst x))))"
    unfolding find_smallest_fitting_block_def Let_def FB_def opt_def G_def F_def by simp
  have setG: "set G = {c \<in> set block_sizes. fits dims c \<and> waste_ratio dims c \<le> 0.7}"
    and setF: "set F = {c \<in> set block_sizes. fits dims c}"
    by (auto simp: G_def F_def)
  show ?thesis
  proof (cases "F = []")
    case True
    then have "set F = {}" by simp
    then have "set G = {}" unfolding setG setF by blast
    then have "G = []" by simp
    with True have "FB = []" by (simp add: FB_def)
    then have "find_smallest_fitting_block dims = Inr None" by (simp add: res)
    moreover have "\<forall>c\<in>set block_sizes. \<not> fits dims c" using True setF by auto
    ultimately show ?thesis by (rule none)
  next
    case Fne: False
    show ?thesis
    proof (cases "G = []")
      case True
      then have FB: "FB = map (\<lambda>block. (block, 0.8, block_volume block)) F" by (simp add: FB_def)
      with Fne have ne: "FB \<noteq> []" by simp
      have "opt = []" by (auto simp: opt_def FB filter_empty_conv)
      obtain x where x: "py_min (\<lambda>x. snd (snd x)) FB = Inr x" "x \<in> set FB"
        "\<forall>y\<in>set FB. snd (snd x) \<le> snd (snd y)"
        using ne by (rule py_min_nonempty)
      from x(2) obtain b where b: "b \<in> set F" "x = (b, 0.8, block_volume b)" by (auto simp: FB)
      have r: "find_smallest_fitting_block dims = Inr (Some b)"
        using ne \<open>opt = []\<close> x(1) b(2) by (simp add: res)
      have noband: "\<forall>c\<in>set block_sizes. fits dims c \<longrightarrow> \<not> in_band (waste_ratio dims c)"
      proof (intro ballI impI)
        fix c assume "c \<in> set block_sizes" "fits dims c"
        moreover have "c \<notin> set G" using True by simp
        ultimately have "\<not> waste_ratio dims c \<le> 0.7" unfolding setG by blast
        then show "\<not> in_band (waste_ratio dims c)" by (simp add: in_band_def)
      qed
      have small: "\<forall>c\<in>set block_sizes. fits dims c \<longrightarrow> block_volume b \<le> block_volume c"
      proof (intro ballI impI)
        fix c assume "c \<in> set block_sizes" "fits dims c"
        then have "(c, 0.8, block_volume c) \<in> set FB" by (auto simp: FB setF)
        with x(3) b(2) show "block_volume b \<le> block_volume c" by fastforce
      qed
      from b(1) have "b \<in> set block_sizes" "fits dims b" by (auto simp: setF)
      with r show ?thesis using noband small by (intro fallback[of b])
    next
      case Gne: False
      then have FB: "FB = map (\<lambda>block. (block, waste_ratio dims block, block_volume block)) G"
        by (simp add: FB_def)
      with Gne have ne: "FB \<noteq> []" by simp
      have inopt: "(c, waste_ratio dims c, block_volume c) \<in> set opt"
        if "c \<in> set block_sizes" "fits dims c" "in_band (waste_ratio dims c)" for c
        using that by (auto simp: opt_def FB setG in_band_def)
      show ?thesis
      proof (cases "opt = []")
        case False
        obtain x where x: "py_min (\<lambda>x. (\<bar>fst (snd x) - 0.3\<bar>, snd (snd x))) opt = Inr x" "x \<in> set opt"
          "\<forall>y\<in>set opt. (\<bar>fst (snd x) - 0.3\<bar>, snd (snd x)) \<le> (\<bar>fst (snd y) - 0.3\<bar>, snd (snd y))"
          using False by (rule py_min_nonempty)
        from x(2) obtain b where b: "b \<in> set G" "x = (b, waste_ratio dims b, block_volume b)"
          "in_band (waste_ratio dims b)"
          by (auto simp: opt_def FB in_band_def)
        have r: "find_smallest_fitting_block dims = Inr (Some b)"
          using ne False x(1) b(2) by (simp add: res)
        have best: "\<forall>c\<in>set block_sizes. fits dims c \<and> in_band (waste_ratio dims c)
            \<longrightarrow> band_key dims b \<le> band_key dims c"
        proof (intro ballI impI)
          fix c assume c: "c \<in> set block_sizes" "fits dims c \<and> in_band (waste_ratio dims c)"
          then have "(c, waste_ratio dims c, block_volume c) \<in> set opt" using inopt by blast
          with x(3) have "(\<bar>fst (snd x) - 0.3\<bar>, snd (snd x))
             \<le> (\<bar>waste_ratio dims c - 0.3\<bar>, block_volume c)" by fastforce
          then show "band_key dims b \<le> band_key dims c" by (simp add: band_key_def b(2))
        qed
        from b(1) have "b \<in> set block_sizes" "fits dims b" by (auto simp: setG)
        with r b(3) best show ?thesis by (intro band[of b])
      next
        case True
        obtain x where x: "py_min (\<lambda>x. snd (snd x)) FB = Inr x" "x \<in> set FB"
          "\<forall>y\<in>set FB. snd (snd x) \<le> snd (snd y)"
          using ne by (rule py_min_nonempty)
        from x(2) obtain b where b: "b \<in> set G" "x = (b, waste_ratio dims b, block_volume b)"
          by (auto simp: FB)
        have r: "find_smallest_fitting_block dims = Inr (Some b)"
          using ne True x(1) b(2) by (simp add: res)
        from b(1) have bs: "b \<in> set block_sizes" "fits dims b" "waste_ratio dims b \<le> 0.7"
          by (auto simp: setG)
        have noband: "\<forall>c\<in>set block_sizes. fits dims c \<longrightarrow> \<not> in_band (waste_ratio dims c)"
          using inopt True by auto
        have small: "\<forall>c\<in>set block_sizes. fits dims c \<longrightarrow> block_volume b \<le> block_volume c"
        proof (intro ballI impI)
          fix c assume c: "c \<in> set block_sizes" "fits dims c"
          show "block_volume b \<le> block_volume c"
          proof (cases "waste_ratio dims c \<le> 0.7")
            case True
            with c have "(c, waste_ratio dims c, block_volume c) \<in> set FB" by (auto simp: FB setG)
            with x(3) b(2) show ?thesis by fastforce
          next
            case False
            with bs(3) show ?thesis
              by (rule waste_ratio_volume_mono) (use bs(1) c(1) block_volume_pos in auto)
          qed
        qed
        from r bs(1,2) noband small show ?thesis by (intro fallback[of b])
      qed
    qed
  qed
qed

subsection \<open>Quantity multiplier\<close>

lemma get_quantity_multiplier_below_one:
  "quantity < 1 \<Longrightarrow> get_quantity_multiplier quantity = 1"
  by (simp add: get_quantity_multiplier_def tiers_def)

lemma get_quantity_multiplier_from_5000:
  "5000 \<le> quantity \<Longrightarrow> get_quantity_multiplier quantity = 0.72"
  by (simp add: get_quantity_multiplier_def tiers_def)

lemma get_quantity_multiplier_gap_value:
  "100 < quantity \<Longrightarrow> quantity < 5000 \<Longrightarrow> get_quantity_multiplier quantity = 1"
  by (simp add: get_quantity_multiplier_def tiers_def)

text \<open>
  On the table, from 1 to 100 parts, the multiplier is the linear interpolation between
  the two adjacent control points, and it does not increase.
\<close>

lemma get_quantity_multiplier_at_one: "get_quantity_multiplier 1 = 1"
  by (simp add: get_quantity_multiplier_def tiers_def)

lemma get_quantity_multiplier_segments:
  assumes "1 \<le> q" "q \<le> 100"
  shows "get_quantity_multiplier q =
     (if q \<le> 2 then 1 + (0.95 - 1) * (real_of_int (q - 1) / 1)
      else if q \<le> 3 then 0.95 + (0.92 - 0.95) * (real_of_int (q - 2) / 1)
      else if q \<le> 4 then 0.92 + (0.90 - 0.92) * (real_of_int (q - 3) / 1)
      else if q \<le> 5 then 0.90 + (0.88 - 0.90) * (real_of_int (q - 4) / 1)
      else if q \<le> 10 then 0.88 + (0.85 - 0.88) * (real_of_int (q - 5) / 5)
      else if q \<le> 15 then 0.85 + (0.82 - 0.85) * (real_of_int (q - 10) / 5)
      else if q \<le> 20 then 0.82 + (0.80 - 0.82) * (real_of_int (q - 15) / 5)
      else if q \<le> 25 then 0.80 + (0.78 - 0.80) * (real_of_int (q - 20) / 5)
      else if q \<le> 50 then 0.78 + (0.75 - 0.78) * (real_of_int (q - 25) / 25)
      else 0.75 + (0.72 - 0.75) * (real_of_int (q - 50) / 50))"
  using assms by (simp add: get_quantity_multiplier_def tiers_def)


lemma get_quantity_multiplier_step:
  assumes "1 \<le> q" "q < 100"
  shows "get_quantity_multiplier (q + 1) \<le> get_quantity_multiplier q"
proof -
  have a: "1 \<le> q" "q \<le> 100" and b: "1 \<le> q + 1" "q + 1 \<le> 100" using assms by simp_all
  consider "q = 1" | "q = 2" | "q = 3" | "q = 4" | "5 \<le> q" "q < 10" | "10 \<le> q" "q < 15"
    | "15 \<le> q" "q < 20" | "20 \<le> q" "q < 25" | "25 \<le> q" "q < 50" | "50 \<le> q" "q < 100"
    using assms by linarith
  then show ?thesis
    unfolding get_quantity_multiplier_segments[OF a] get_quantity_multiplier_segments[OF b]
    by cases simp_all
qed

lemma get_quantity_multiplier_mono_on_table:
  assumes "1 \<le> p" "p \<le> q" "q \<le> 100"
  shows "get_quantity_multiplier q \<le> get_quantity_multiplier p"
proof -
  have "get_quantity_multiplier (p + int n) \<le> get_quantity_multiplier p" if "p + int n \<le> 100" for n
    using that
  proof (induction n)
    case 0
    show ?case by simp
  next
    case (Suc n)
    have "get_quantity_multiplier (p + int n + 1) \<le> get_quantity_multiplier (p + int n)"
      by (rule get_quantity_multiplier_step) (use Suc.prems assms(1) in simp_all)
    also have "\<dots> \<le> get_quantity_multiplier p" using Suc by simp
    finally show ?case by (simp add: ac_simps)
  qed
  from this[of "nat (q - p)"] assms show ?thesis by simp
qed

text \<open>
  C1. The quantity multiplier is meant to be non-increasing in the quantity. The control
  points end at 100 while the upper guard starts at 5000; a quantity strictly between
  them leaves the loop without a match and gets the first point's multiplier 1.0, so the
  multiplier rises from 0.72 at 100 parts to 1.0 at 101 parts.
\<close>

theorem get_quantity_multiplier_rises_after_100:
  "get_quantity_multiplier 100 = 0.72 \<and> get_quantity_multiplier 101 = 1
   \<and> get_quantity_multiplier 100 < get_quantity_multiplier 101"
  by (simp add: get_quantity_multiplier_def tiers_def)

subsection \<open>Totals and the price floor\<close>

text \<open>
  C7. In every quote that \<^verbatim>\<open>calculate_costs\<close> returns, the total cost is the per-unit
  cost times the quantity. (The quantity need not be positive for this.)
\<close>

theorem total_cost_is_per_unit_times_quantity:
  assumes "calculate_costs mesh quantity tier = Inr r"
  shows "total_cost r = per_unit_cost r * real_of_int quantity"
proof -
  obtain b where "r = quote_for_block mesh quantity tier b"
    using assms by (rule calculate_costs_InrD)
  then show ?thesis by (simp add: qfb_simple_fields)
qed

theorem total_cost_is_per_unit_times_quantity_witness:
  "calculate_costs plate_example 3 None = Inr (quote_for_block plate_example 3 None (100, 100, 100))
   \<and> total_cost (quote_for_block plate_example 3 None (100, 100, 100))
       = per_unit_cost (quote_for_block plate_example 3 None (100, 100, 100)) * 3"
  using total_cost_is_per_unit_times_quantity[OF plate_quote, of 3 None] plate_quote[of 3 None]
  by simp

text \<open>
  C4. In every quote that \<^verbatim>\<open>calculate_costs\<close> returns, the per-unit cost is at least 200:
  it is the composite cost floored at 200 and then multiplied by the expedited
  multiplier, which is at least 1.
\<close>

theorem per_unit_cost_floor:
  assumes "calculate_costs mesh quantity tier = Inr r"
  shows "200 \<le> per_unit_cost r
         \<and> per_unit_cost r = max 200 (composite_cost r) * expedited_multiplier r
         \<and> 1 \<le> expedited_multiplier r"
proof -
  obtain b where r: "r = quote_for_block mesh quantity tier b"
    using assms by (rule calculate_costs_InrD)
  have m: "1 \<le> expedited_multiplier r"
    unfolding r by (rule expedited_multiplier_ge_1)
  have p: "per_unit_cost r = max 200 (composite_cost r) * expedited_multiplier r"
    unfolding r by (simp add: qfb_per_unit_cost min_price_per_part_def max_def)
  have "200 * 1 \<le> max 200 (composite_cost r) * expedited_multiplier r"
    by (rule mult_mono) (use m in auto)
  with p m show ?thesis by simp
qed

theorem per_unit_cost_floor_witness:
  "calculate_costs plate_example 1 None = Inr (quote_for_block plate_example 1 None (100, 100, 100))
   \<and> per_unit_cost (quote_for_block plate_example 1 None (100, 100, 100)) = 200
   \<and> 200 \<le> per_unit_cost (quote_for_block plate_example 1 None (100, 100, 100))"
  using per_unit_cost_floor[OF plate_quote, of 1 None] plate_quote[of 1 None] plate_per_unit_1
  by simp

subsection \<open>Expedited tiers\<close>

lemma qfb_unrecognised:
  assumes "expedited_lookup tier = None"
  shows "quote_for_block mesh quantity tier b
         = (quote_for_block mesh quantity None b)\<lparr> expedited := (tier \<noteq> None) \<rparr>"
proof -
  have n: "expedited_lookup None = None" by (simp add: expedited_lookup_def)
  show ?thesis by (simp add: quote_for_block_def Let_def assms n)
qed

lemma calculate_costs_unrecognised:
  assumes "expedited_lookup tier = None"
  shows "calculate_costs mesh quantity tier
         = map_sum id (\<lambda>r. r\<lparr> expedited := (tier \<noteq> None) \<rparr>) (calculate_costs mesh quantity None)"
  using calculate_costs_cases[of mesh quantity tier] calculate_costs_cases[of mesh quantity None]
  by (auto simp: qfb_unrecognised[OF assms])

lemma plate_lead_time_std: "standard_lead_time (calculate_complexity_score plate_example) = 7"
  by (simp add: plate_score standard_lead_time_def)

text \<open>
  C6. The tiers \<^verbatim>\<open>"3_days"\<close>, \<^verbatim>\<open>"4_days"\<close> and \<^verbatim>\<open>"5_days"\<close> give a lead time of 3, 4 and 5
  days, whatever the mesh and so whatever the complexity score. Any other tier (no tier,
  or a string that is not one of the three) is no expediting: the outcome is the one for
  no tier, error or quote, apart from the flag \<^verbatim>\<open>expedited\<close>, which records that a
  string was passed; the expedited multiplier is 1, the per-unit cost is the floored
  composite cost, and the lead time is the standard one for the score (7 below 5, 10
  below 8, else 11).
\<close>

theorem expedited_tier_lead_time:
  "(calculate_costs mesh quantity (Some ''3_days'') = Inr r \<longrightarrow> lead_time_days r = 3)
   \<and> (calculate_costs mesh quantity (Some ''4_days'') = Inr r \<longrightarrow> lead_time_days r = 4)
   \<and> (calculate_costs mesh quantity (Some ''5_days'') = Inr r \<longrightarrow> lead_time_days r = 5)
   \<and> (tier \<notin> {Some ''5_days'', Some ''4_days'', Some ''3_days''} \<longrightarrow>
        calculate_costs mesh quantity tier
          = map_sum id (\<lambda>r. r\<lparr> expedited := (tier \<noteq> None) \<rparr>) (calculate_costs mesh quantity None)
        \<and> (calculate_costs mesh quantity tier = Inr r \<longrightarrow>
             expedited_multiplier r = 1
             \<and> per_unit_cost r = max 200 (composite_cost r)
             \<and> lead_time_days r = standard_lead_time (complexity_score r)))"
proof -
  have fixed: "calculate_costs mesh quantity (Some s) = Inr r \<Longrightarrow>
      s \<in> {''3_days'', ''4_days'', ''5_days''} \<Longrightarrow>
      lead_time_days r = (if s = ''3_days'' then 3 else if s = ''4_days'' then 4 else 5)" for s
  proof -
    assume a: "calculate_costs mesh quantity (Some s) = Inr r" and s: "s \<in> {''3_days'', ''4_days'', ''5_days''}"
    obtain b where r: "r = quote_for_block mesh quantity (Some s) b"
      using a by (rule calculate_costs_InrD)
    from s show ?thesis
      using expedited_lookup_cases[of "Some s"] unfolding r qfb_lead_time_days by auto
  qed
  have other: "expedited_multiplier r = 1 \<and> per_unit_cost r = max 200 (composite_cost r)
       \<and> lead_time_days r = standard_lead_time (complexity_score r)"
    if t: "tier \<notin> {Some ''5_days'', Some ''4_days'', Some ''3_days''}"
      and a: "calculate_costs mesh quantity tier = Inr r"
  proof -
    obtain b where r: "r = quote_for_block mesh quantity tier b"
      using a by (rule calculate_costs_InrD)
    have n: "expedited_lookup tier = None"
      using expedited_lookup_cases[of tier] t by auto
    have m: "expedited_multiplier r = 1"
      unfolding r by (simp add: qfb_expedited_multiplier n)
    have l: "lead_time_days r = standard_lead_time (complexity_score r)"
      unfolding r by (simp add: qfb_lead_time_days qfb_simple_fields n)
    have "per_unit_cost r = max 200 (composite_cost r) * expedited_multiplier r"
      unfolding r by (simp add: qfb_per_unit_cost min_price_per_part_def max_def)
    with m l show ?thesis by simp
  qed
  have same: "calculate_costs mesh quantity tier
          = map_sum id (\<lambda>r. r\<lparr> expedited := (tier \<noteq> None) \<rparr>) (calculate_costs mesh quantity None)"
    if t: "tier \<notin> {Some ''5_days'', Some ''4_days'', Some ''3_days''}"
  proof -
    have n: "expedited_lookup tier = None"
      using expedited_lookup_cases[of tier] t by auto
    then show ?thesis by (rule calculate_costs_unrecognised)
  qed
  show ?thesis
    using fixed[of "''3_days''"] fixed[of "''4_days''"] fixed[of "''5_days''"] other same
    by simp
qed

theorem expedited_tier_lead_time_witness:
  "calculate_costs plate_example 1 (Some ''3_days'')
     = Inr (quote_for_block plate_example 1 (Some ''3_days'') (100, 100, 100))
   \<and> lead_time_days (quote_for_block plate_example 1 (Some ''3_days'') (100, 100, 100)) = 3
   \<and> Some ''2_days'' \<notin> {Some ''5_days'', Some ''4_days'', Some ''3_days''}
   \<and> calculate_costs plate_example 1 (Some ''2_days'')
     = Inr (quote_for_block plate_example 1 (Some ''2_days'') (100, 100, 100))
   \<and> lead_time_days (quote_for_block plate_example 1 (Some ''2_days'') (100, 100, 100)) = 7
   \<and> expedited_multiplier (quote_for_block plate_example 1 (Some ''2_days'') (100, 100, 100)) = 1"
  using expedited_tier_lead_time[of plate_example 1
          "quote_for_block plate_example 1 (Some ''3_days'') (100, 100, 100)" "Some ''2_days''"]
        expedited_tier_lead_time[of plate_example 1
          "quote_for_block plate_example 1 (Some ''2_days'') (100, 100, 100)" "Some ''2_days''"]
        plate_quote[of 1 "Some ''3_days''"] plate_quote[of 1 "Some ''2_days''"]
        plate_lead_time_std
  by (simp add: qfb_simple_fields)

subsection \<open>Milling phases\<close>

text \<open>
  C9. The shrink-wrap volume is 0.8 times the hull volume, so the medium milling volume
  is 0.2 times the hull volume and the difference that is clamped at zero is never
  negative; and the fine milling volume, with it the fine milling cost, is 0 whenever the
  part volume is at least 0.8 times the hull volume.
\<close>

theorem milling_phase_volumes:
  assumes "calculate_costs mesh quantity tier = Inr r"
  shows "shrink_wrap_volume (calculate_volumes mesh) = 0.8 * convex_hull_volume (calculate_volumes mesh)
       \<and> medium_volume (breakdown r) = 0.2 * convex_hull_volume (calculate_volumes mesh)
       \<and> 0 \<le> convex_hull_volume (calculate_volumes mesh) - shrink_wrap_volume (calculate_volumes mesh)
       \<and> (part_volume (calculate_volumes mesh) \<ge> 0.8 * convex_hull_volume (calculate_volumes mesh)
            \<longrightarrow> fine_volume (breakdown r) = 0 \<and> fine_milling_cost (breakdown r) = 0)"
proof -
  obtain b where r: "r = quote_for_block mesh quantity tier b"
    using assms by (rule calculate_costs_InrD)
  have s: "shrink_wrap_volume (calculate_volumes mesh) = 0.8 * convex_hull_volume (calculate_volumes mesh)"
    and h: "0 \<le> convex_hull_volume (calculate_volumes mesh)"
    by (simp_all add: calculate_volumes_def Let_def)
  have m: "medium_volume (breakdown r) = 0.2 * convex_hull_volume (calculate_volumes mesh)"
    unfolding r qfb_milling_volumes s using h by simp
  have f: "fine_volume (breakdown r) = 0"
    if "part_volume (calculate_volumes mesh) \<ge> 0.8 * convex_hull_volume (calculate_volumes mesh)"
    unfolding r qfb_milling_volumes s using that by simp
  have fc: "fine_milling_cost (breakdown r) = fine_volume (breakdown r) * fine_cost_per_mm3"
    unfolding r by (rule qfb_milling_costs)
  show ?thesis using s h m f fc by simp
qed

theorem milling_phase_volumes_witness:
  "calculate_costs plate_example 1 None = Inr (quote_for_block plate_example 1 None (100, 100, 100))
   \<and> part_volume (calculate_volumes plate_example) = 150000
   \<and> convex_hull_volume (calculate_volumes plate_example) = 160000
   \<and> medium_volume (breakdown (quote_for_block plate_example 1 None (100, 100, 100))) = 32000
   \<and> fine_volume (breakdown (quote_for_block plate_example 1 None (100, 100, 100))) = 0
   \<and> fine_milling_cost (breakdown (quote_for_block plate_example 1 None (100, 100, 100))) = 0"
  using milling_phase_volumes[OF plate_quote, of 1 None] plate_quote[of 1 None]
  by (simp add: calculate_volumes_def plate_example_def)

subsection \<open>Stock selection\<close>

lemma small_block: "find_smallest_fitting_block (40, 40, 40) = Inr (Some (50, 50, 50))"
  by (simp add: block_eval_defs)

lemma oversize_block: "find_smallest_fitting_block (part_dimensions oversize_example) = Inr None"
  by (simp add: block_eval_defs oversize_example_def)

text \<open>
  C5. \<^verbatim>\<open>find_smallest_fitting_block\<close> never raises, and returns \<^verbatim>\<open>None\<close> exactly when no
  catalogue block fits. A block it returns is a catalogue block whose sorted dimensions
  dominate the sorted part dimensions elementwise. If some fitting block has its waste
  ratio in the band from 0.2 to 0.6, the returned block is in the band and its key
  (distance of the waste from 0.3, then block volume, compared lexicographically) is
  least among the fitting blocks in the band; otherwise the returned block has the least
  volume of all fitting blocks. \<^verbatim>\<open>calculate_costs\<close> fails exactly when no catalogue block
  fits the part dimensions, and its only error is the part-too-large error.
\<close>

theorem stock_selection:
  "find_smallest_fitting_block dims \<noteq> Inl e
   \<and> (find_smallest_fitting_block dims = Inr None \<longleftrightarrow> (\<forall>c\<in>set block_sizes. \<not> fits dims c))
   \<and> (find_smallest_fitting_block dims = Inr (Some b) \<longrightarrow>
        b \<in> set block_sizes
        \<and> list_all2 (\<lambda>x y. x \<le> real_of_int y) (sorted_dims dims) (sorted_dims b)
        \<and> ((\<exists>c\<in>set block_sizes. fits dims c \<and> in_band (waste_ratio dims c)) \<longrightarrow>
              in_band (waste_ratio dims b)
              \<and> (\<forall>c\<in>set block_sizes. fits dims c \<and> in_band (waste_ratio dims c)
                    \<longrightarrow> band_key dims b \<le> band_key dims c))
        \<and> (\<not> (\<exists>c\<in>set block_sizes. fits dims c \<and> in_band (waste_ratio dims c)) \<longrightarrow>
              (\<forall>c\<in>set block_sizes. fits dims c \<longrightarrow> block_volume b \<le> block_volume c)))
   \<and> (calculate_costs mesh quantity tier = Inl e \<longleftrightarrow>
        e = ValueError ''Part is too large for available block sizes''
        \<and> (\<forall>c\<in>set block_sizes. \<not> fits (part_dimensions mesh) c))"
proof -
  have sel: "find_smallest_fitting_block d \<noteq> Inl e
     \<and> (find_smallest_fitting_block d = Inr None \<longleftrightarrow> (\<forall>c\<in>set block_sizes. \<not> fits d c))
     \<and> (find_smallest_fitting_block d = Inr (Some b) \<longrightarrow>
        b \<in> set block_sizes
        \<and> fits d b
        \<and> ((\<exists>c\<in>set block_sizes. fits d c \<and> in_band (waste_ratio d c)) \<longrightarrow>
              in_band (waste_ratio d b)
              \<and> (\<forall>c\<in>set block_sizes. fits d c \<and> in_band (waste_ratio d c)
                    \<longrightarrow> band_key d b \<le> band_key d c))
        \<and> (\<not> (\<exists>c\<in>set block_sizes. fits d c \<and> in_band (waste_ratio d c)) \<longrightarrow>
              (\<forall>c\<in>set block_sizes. fits d c \<longrightarrow> block_volume b \<le> block_volume c)))" for d
  proof (cases d rule: find_smallest_fitting_block_cases)
    case none
    then show ?thesis by simp
  next
    case (band b')
    then show ?thesis by auto
  next
    case (fallback b')
    then show ?thesis by auto
  qed
  have cc: "calculate_costs mesh quantity tier = Inl e \<longleftrightarrow>
        e = ValueError ''Part is too large for available block sizes''
        \<and> (\<forall>c\<in>set block_sizes. \<not> fits (part_dimensions mesh) c)"
    using calculate_costs_cases[of mesh quantity tier] sel[of "part_dimensions mesh"]
    by auto
  show ?thesis using sel[of dims] cc by (simp add: fits_iff_dominates)
qed

theorem stock_selection_witness:
  "find_smallest_fitting_block (40, 40, 40) = Inr (Some (50, 50, 50))
   \<and> (50, 50, 50) \<in> set block_sizes
   \<and> list_all2 (\<lambda>x y. x \<le> real_of_int y) (sorted_dims (40, 40, 40 :: real)) (sorted_dims (50, 50, 50 :: int))
   \<and> fits (40, 40, 40) (50, 50, 50)
   \<and> waste_ratio (40, 40, 40) (50, 50, 50) = 0.488
   \<and> in_band (waste_ratio (40, 40, 40) (50, 50, 50))
   \<and> find_smallest_fitting_block (part_dimensions oversize_example) = Inr None
   \<and> calculate_costs oversize_example 1 None
       = Inl (ValueError ''Part is too large for available block sizes'')"
proof -
  have f: "fits (40, 40, 40) (50, 50, 50)" by (simp add: fits_def sorted_dims_def)
  have w: "waste_ratio (40, 40, 40) (50, 50, 50) = 0.488"
    by (simp add: waste_ratio_def block_volume_def)
  have m: "(50, 50, 50) \<in> set block_sizes" by (simp add: block_sizes_def)
  have i: "in_band (waste_ratio (40, 40, 40) (50, 50, 50))" by (simp add: w in_band_def)
  from stock_selection[of "(40, 40, 40)" "ValueError ''Part is too large for available block sizes''"
         "(50, 50, 50)" oversize_example 1 None]
       stock_selection[of "part_dimensions oversize_example" "ValueError ''Part is too large for available block sizes''"
         "(50, 50, 50)" oversize_example 1 None]
  show ?thesis using small_block oversize_block f w m i by simp
qed

subsection \<open>Machine time cost and the milling breakdown\<close>

lemma find_smallest_fitting_block_in_catalogue:
  assumes "find_smallest_fitting_block dims = Inr (Some b)"
  shows "b \<in> set block_sizes"
  using assms by (cases dims rule: find_smallest_fitting_block_cases) auto

lemma calibration_values:
  "dict_get complexity_calibration (get_complexity_category s) 1 \<in> {0.85, 1, 1.35}"
  "dict_get size_calibration (get_size_category l) 1 \<in> {1.15, 1, 0.9}"
  by (simp_all add: dict_get_def complexity_calibration_def get_complexity_category_def
        size_calibration_def get_size_category_def)

lemma multiplier_product_one:
  fixes c s :: real
  assumes "c \<in> {0.85, 1, 1.35}" "s \<in> {1.15, 1, 0.9}"
  shows "c * s = 1 \<longleftrightarrow> c = 1 \<and> s = 1"
  using assms by (elim insertE emptyE; hypsubst; simp)

lemma milling_cost_sum_pos:
  assumes "b \<in> set block_sizes"
  shows "0 < milling_cost_sum (breakdown (quote_for_block mesh quantity tier b))"
proof -
  let ?q = "breakdown (quote_for_block mesh quantity tier b)"
  let ?h = "convex_hull_volume (calculate_volumes mesh)"
  have h: "0 \<le> ?h" and s: "shrink_wrap_volume (calculate_volumes mesh) = ?h * 0.8"
    by (simp_all add: calculate_volumes_def Let_def)
  have v: "0 < real_of_int (block_volume b)" using block_volume_pos[OF assms] by simp
  have c0: "0 \<le> coarse_milling_cost ?q" and m0: "0 \<le> medium_milling_cost ?q"
    and f0: "0 \<le> fine_milling_cost ?q"
    by (simp_all add: qfb_milling_costs qfb_milling_volumes coarse_cost_per_mm3_def
          medium_cost_per_mm3_def fine_cost_per_mm3_def)
  have "0 < coarse_milling_cost ?q \<or> 0 < medium_milling_cost ?q"
  proof (cases "?h = 0")
    case True
    then have "coarse_volume ?q = real_of_int (block_volume b)"
      using v by (simp add: qfb_milling_volumes)
    then have "0 < coarse_milling_cost ?q"
      using v by (simp add: qfb_milling_costs coarse_cost_per_mm3_def)
    then show ?thesis ..
  next
    case False
    with h have "0 < ?h" by simp
    then have "0 < medium_volume ?q" by (simp add: qfb_milling_volumes s)
    then have "0 < medium_milling_cost ?q"
      by (simp add: qfb_milling_costs medium_cost_per_mm3_def)
    then show ?thesis ..
  qed
  with c0 m0 f0 show ?thesis unfolding milling_cost_sum_def by linarith
qed

lemma bar_score: "calculate_complexity_score bar_example = 0.637"
  by (simp add: calculate_complexity_score_def detect_features_def detect_features_try_def
        bar_example_def py_div_def py_int_def Let_def)

lemma bar_multipliers:
  "complexity_multiplier (breakdown (quote_for_block bar_example 1 None (300, 250, 250))) = 0.85"
  "size_multiplier (breakdown (quote_for_block bar_example 1 None (300, 250, 250))) = 1.15"
proof -
  show "complexity_multiplier (breakdown (quote_for_block bar_example 1 None (300, 250, 250))) = 0.85"
    by (simp add: qfb_multipliers bar_score get_complexity_category_def complexity_calibration_def
          dict_get_def)
  show "size_multiplier (breakdown (quote_for_block bar_example 1 None (300, 250, 250))) = 1.15"
    by (simp add: qfb_multipliers get_size_category_def size_calibration_def dict_get_def
          get_bounding_box_def bar_example_def)
qed

text \<open>
  C10. In every quote, the field \<^verbatim>\<open>machine_time_cost\<close> is the sum of the three milling costs
  of the breakdown times the complexity multiplier times the size multiplier, the three
  milling costs being the phase volumes times the unit costs, before any multiplier. The
  sum is positive, so it equals the field exactly when both multipliers are 1.
\<close>

theorem machine_time_cost_composition:
  assumes "calculate_costs mesh quantity tier = Inr r"
  shows "machine_time_cost r
           = (coarse_milling_cost (breakdown r) + medium_milling_cost (breakdown r)
              + fine_milling_cost (breakdown r))
             * complexity_multiplier (breakdown r) * size_multiplier (breakdown r)
       \<and> coarse_milling_cost (breakdown r) = coarse_volume (breakdown r) * coarse_cost_per_mm3
       \<and> medium_milling_cost (breakdown r) = medium_volume (breakdown r) * medium_cost_per_mm3
       \<and> fine_milling_cost (breakdown r) = fine_volume (breakdown r) * fine_cost_per_mm3
       \<and> (coarse_milling_cost (breakdown r) + medium_milling_cost (breakdown r)
              + fine_milling_cost (breakdown r) = machine_time_cost r
            \<longleftrightarrow> complexity_multiplier (breakdown r) = 1 \<and> size_multiplier (breakdown r) = 1)"
proof -
  obtain b where b: "find_smallest_fitting_block (part_dimensions mesh) = Inr (Some b)"
    and r: "r = quote_for_block mesh quantity tier b"
    using assms by (rule calculate_costs_InrD)
  let ?S = "milling_cost_sum (breakdown r)"
  let ?c = "complexity_multiplier (breakdown r)"
  let ?s = "size_multiplier (breakdown r)"
  have eq: "machine_time_cost r = ?S * ?c * ?s" unfolding r by (rule qfb_machine_time_cost)
  have pos: "0 < ?S"
    unfolding r by (rule milling_cost_sum_pos[OF find_smallest_fitting_block_in_catalogue[OF b]])
  have cv: "?c \<in> {0.85, 1, 1.35}" and sv: "?s \<in> {1.15, 1, 0.9}"
    unfolding r qfb_multipliers by (rule calibration_values)+
  have prod: "?c * ?s = 1 \<longleftrightarrow> ?c = 1 \<and> ?s = 1"
    using cv sv by (rule multiplier_product_one)
  have "?S = machine_time_cost r \<longleftrightarrow> ?S * 1 = ?S * (?c * ?s)"
    by (simp add: eq mult.assoc)
  also have "\<dots> \<longleftrightarrow> ?c * ?s = 1" using pos by (simp only: mult_left_cancel) auto
  finally have iff: "?S = machine_time_cost r \<longleftrightarrow> ?c = 1 \<and> ?s = 1" using prod by simp
  have costs: "coarse_milling_cost (breakdown r) = coarse_volume (breakdown r) * coarse_cost_per_mm3"
    "medium_milling_cost (breakdown r) = medium_volume (breakdown r) * medium_cost_per_mm3"
    "fine_milling_cost (breakdown r) = fine_volume (breakdown r) * fine_cost_per_mm3"
    unfolding r by (rule qfb_milling_costs)+
  show ?thesis using eq iff costs unfolding milling_cost_sum_def by simp
qed

theorem machine_time_cost_composition_witness:
  "calculate_costs bar_example 1 None = Inr (quote_for_block bar_example 1 None (300, 250, 250))
   \<and> complexity_multiplier (breakdown (quote_for_block bar_example 1 None (300, 250, 250))) = 0.85
   \<and> size_multiplier (breakdown (quote_for_block bar_example 1 None (300, 250, 250))) = 1.15
   \<and> coarse_milling_cost (breakdown (quote_for_block bar_example 1 None (300, 250, 250)))
      + medium_milling_cost (breakdown (quote_for_block bar_example 1 None (300, 250, 250)))
      + fine_milling_cost (breakdown (quote_for_block bar_example 1 None (300, 250, 250)))
      \<noteq> machine_time_cost (quote_for_block bar_example 1 None (300, 250, 250))"
  using machine_time_cost_composition[OF bar_quote, of 1 None] bar_quote[of 1 None] bar_multipliers
  by simp

subsection \<open>Features and complexity\<close>

lemma py_int_nonneg: "0 \<le> x \<Longrightarrow> py_int x = \<lfloor>x\<rfloor>"
  by (simp add: py_int_def)

lemma detect_features_try_zero_hull:
  assumes "hull_volume mesh = 0"
  shows "\<exists>f. detect_features_try mesh f0 = Inl (ZeroDivisionError, f)"
  using assms by (simp add: detect_features_try_def Let_def py_div_def)

lemma detect_features_zero_hull:
  assumes "hull_volume mesh = 0"
  shows "feature_score (detect_features mesh) = 0"
  using assms by (simp add: detect_features_def detect_features_try_def Let_def py_div_def)

lemma detect_features_fields:
  assumes "hull_volume mesh \<noteq> 0"
  shows "holes (detect_features mesh) =
           (let sa_volume_ratio = (if \<bar>mesh_volume mesh\<bar> > 0 then mesh_area mesh / \<bar>mesh_volume mesh\<bar> else 0)
            in if sa_volume_ratio > 0.15 then max 1 (min 5 (py_int (sa_volume_ratio * 5))) else 0)"
    and "cavities (detect_features mesh) =
           (let cavity_ratio = 1 - \<bar>mesh_volume mesh\<bar> / \<bar>hull_volume mesh\<bar>
            in if cavity_ratio > 0.2 then max 1 (min 3 (py_int (cavity_ratio * 3))) else 0)"
    and "sharp_edges (detect_features mesh) =
           (let edge_face_ratio = (if n_faces mesh > 0 then real (n_edges mesh) / real (n_faces mesh) else 0)
            in if edge_face_ratio > 3 then max 1 (min 4 (py_int (edge_face_ratio * 1.5))) else 0)"
    and "pockets (detect_features mesh) =
           (if n_faces mesh > 2000 then max 1 (min 8 (py_int (real (n_faces mesh) / 1000)))
            else if n_faces mesh > 1000 then max 1 (min 4 (py_int (real (n_faces mesh) / 800)))
            else 0)"
    and "feature_score (detect_features mesh) =
           real_of_int (holes (detect_features mesh)) * 0.8
           + real_of_int (cavities (detect_features mesh)) * 0.6
           + real_of_int (sharp_edges (detect_features mesh)) * 0.4
           + real_of_int (pockets (detect_features mesh)) * 0.5"
  using assms by (simp_all add: detect_features_def detect_features_try_def Let_def py_div_def)


lemma feature_score_nonneg: "0 \<le> feature_score (detect_features mesh)"
proof (cases "hull_volume mesh = 0")
  case True
  then show ?thesis by (simp add: detect_features_zero_hull)
next
  case False
  note f = detect_features_fields[OF False]
  have "0 \<le> holes (detect_features mesh)"
    unfolding f(1) by (simp add: Let_def le_max_iff_disj)
  moreover have "0 \<le> cavities (detect_features mesh)"
    unfolding f(2) by (simp add: Let_def le_max_iff_disj)
  moreover have "0 \<le> sharp_edges (detect_features mesh)"
    unfolding f(3) by (simp add: Let_def le_max_iff_disj)
  moreover have "0 \<le> pockets (detect_features mesh)"
    unfolding f(4) by (simp add: le_max_iff_disj)
  ultimately show ?thesis unfolding f(5) by simp
qed

lemma truncation_is_floor:
  assumes "0 \<le> t" "0 \<le> k"
  shows "(if x > t then max 1 (min n (py_int (x * k))) else 0)
         = (if x > t then max 1 (min n \<lfloor>x * k\<rfloor>) else 0)"
proof (cases "x > t")
  case True
  with assms have "0 \<le> x * k" by simp
  then show ?thesis by (simp add: py_int_nonneg)
next
  case False
  then show ?thesis by simp
qed

lemma box_features:
  "detect_features box_example = \<lparr> holes = 1, cavities = 0, sharp_edges = 0, pockets = 0, feature_score = 0.8 \<rparr>"
  by (simp add: detect_features_def detect_features_try_def box_example_def py_div_def py_int_def Let_def)

text \<open>
  C8. For a mesh whose surface area is not negative, the complexity score lies between 0
  and 8: it is the sum of the four terms of the code (surface-to-volume, faces, edges,
  features), each between 0 and its cap (3, 4, 3 and 2), clamped at 8. The category of a
  score is \<^verbatim>\<open>'low'\<close> exactly below 4, \<^verbatim>\<open>'medium'\<close> exactly from 4 to below 6, and \<^verbatim>\<open>'high'\<close>
  exactly from 6 on.
\<close>

theorem complexity_score_range:
  assumes "0 \<le> mesh_area mesh"
  shows "0 \<le> calculate_complexity_score mesh \<and> calculate_complexity_score mesh \<le> 8
       \<and> calculate_complexity_score mesh
           = min (sa_complexity mesh + face_complexity mesh + edge_complexity mesh
                  + feature_complexity mesh) 8
       \<and> 0 \<le> sa_complexity mesh \<and> sa_complexity mesh \<le> 3
       \<and> 0 \<le> face_complexity mesh \<and> face_complexity mesh \<le> 4
       \<and> 0 \<le> edge_complexity mesh \<and> edge_complexity mesh \<le> 3
       \<and> 0 \<le> feature_complexity mesh \<and> feature_complexity mesh \<le> 2
       \<and> (get_complexity_category score = ''low'' \<longleftrightarrow> score < 4)
       \<and> (get_complexity_category score = ''medium'' \<longleftrightarrow> 4 \<le> score \<and> score < 6)
       \<and> (get_complexity_category score = ''high'' \<longleftrightarrow> 6 \<le> score)"
proof -
  have score: "calculate_complexity_score mesh
           = min (sa_complexity mesh + face_complexity mesh + edge_complexity mesh
                  + feature_complexity mesh) 8"
    by (simp add: calculate_complexity_score_def Let_def sa_complexity_def face_complexity_def
          edge_complexity_def feature_complexity_def)
  have sa: "0 \<le> sa_complexity mesh" "sa_complexity mesh \<le> 3"
    using assms by (simp_all add: sa_complexity_def)
  have face: "0 \<le> face_complexity mesh" "face_complexity mesh \<le> 4"
    by (simp_all add: face_complexity_def)
  have edge: "0 \<le> edge_complexity mesh" "edge_complexity mesh \<le> 3"
    by (simp_all add: edge_complexity_def)
  have feat: "0 \<le> feature_complexity mesh" "feature_complexity mesh \<le> 2"
    using feature_score_nonneg[of mesh] by (simp_all add: feature_complexity_def)
  have range: "0 \<le> calculate_complexity_score mesh" "calculate_complexity_score mesh \<le> 8"
    unfolding score using sa face edge feat by simp_all
  have cat: "(get_complexity_category score = ''low'' \<longleftrightarrow> score < 4)"
    "(get_complexity_category score = ''medium'' \<longleftrightarrow> 4 \<le> score \<and> score < 6)"
    "(get_complexity_category score = ''high'' \<longleftrightarrow> 6 \<le> score)"
    by (auto simp: get_complexity_category_def)
  show ?thesis using range score sa face edge feat cat by blast
qed

theorem complexity_score_range_witness:
  "0 \<le> mesh_area plate_example
   \<and> sa_complexity plate_example = 0.03
   \<and> face_complexity plate_example = 1
   \<and> edge_complexity plate_example = 3
   \<and> feature_complexity plate_example = 0.24
   \<and> calculate_complexity_score plate_example = 4.27
   \<and> 0 \<le> calculate_complexity_score plate_example
   \<and> calculate_complexity_score plate_example \<le> 8
   \<and> get_complexity_category (calculate_complexity_score plate_example) = ''medium''"
proof -
  have a: "0 \<le> mesh_area plate_example" by (simp add: plate_example_def)
  have s: "sa_complexity plate_example = 0.03" "face_complexity plate_example = 1"
    "edge_complexity plate_example = 3"
    by (simp_all add: sa_complexity_def face_complexity_def edge_complexity_def plate_example_def)
  have f: "feature_complexity plate_example = 0.24"
    by (simp add: feature_complexity_def plate_features)
  from complexity_score_range[OF a, of "calculate_complexity_score plate_example"] a s f
  show ?thesis by (simp add: plate_score)
qed

text \<open>
  C3, as the specification words it, with counts rounded to the nearest integer, fails:
  the box of 10 x 20 x 30 mm has a surface-to-volume ratio of 11/30, five times which is
  11/6; the code counts 1 hole, rounding gives 2.
\<close>

theorem detect_features_round_counterexample:
  "0 < mesh_volume box_example \<and> 0 < n_faces box_example
   \<and> holes (detect_features box_example) = 1 \<and> spec_holes box_example = 2
   \<and> holes (detect_features box_example) \<noteq> spec_holes box_example"
  by (simp add: box_features) (simp add: spec_holes_def box_example_def round_def)

text \<open>
  C3, amended: the counts are truncated, not rounded. For a mesh with positive volume, at
  least one face and a hull volume that is not zero, each count is the floor of its
  scaled ratio, clamped to its range, when the ratio exceeds its threshold, and 0
  otherwise.
\<close>

theorem detect_features_truncates:
  assumes "0 < mesh_volume mesh" "0 < n_faces mesh" "hull_volume mesh \<noteq> 0"
  shows "holes (detect_features mesh) =
           (if mesh_area mesh / mesh_volume mesh > 0.15
            then max 1 (min 5 \<lfloor>mesh_area mesh / mesh_volume mesh * 5\<rfloor>) else 0)
       \<and> pockets (detect_features mesh) =
           (if n_faces mesh > 2000 then max 1 (min 8 \<lfloor>real (n_faces mesh) / 1000\<rfloor>)
            else if n_faces mesh > 1000 then max 1 (min 4 \<lfloor>real (n_faces mesh) / 800\<rfloor>)
            else 0)
       \<and> cavities (detect_features mesh) =
           (if 1 - mesh_volume mesh / \<bar>hull_volume mesh\<bar> > 0.2
            then max 1 (min 3 \<lfloor>(1 - mesh_volume mesh / \<bar>hull_volume mesh\<bar>) * 3\<rfloor>) else 0)
       \<and> sharp_edges (detect_features mesh) =
           (if real (n_edges mesh) / real (n_faces mesh) > 3
            then max 1 (min 4 \<lfloor>real (n_edges mesh) / real (n_faces mesh) * 1.5\<rfloor>) else 0)"
proof -
  note f = detect_features_fields[OF assms(3)]
  define sa where "sa = (if \<bar>mesh_volume mesh\<bar> > 0 then mesh_area mesh / \<bar>mesh_volume mesh\<bar> else 0)"
  define cr where "cr = 1 - \<bar>mesh_volume mesh\<bar> / \<bar>hull_volume mesh\<bar>"
  define ef where "ef = (if n_faces mesh > 0 then real (n_edges mesh) / real (n_faces mesh) else 0)"
  have sa: "sa = mesh_area mesh / mesh_volume mesh" using assms(1) by (simp add: sa_def)
  have cr: "cr = 1 - mesh_volume mesh / \<bar>hull_volume mesh\<bar>" using assms(1) by (simp add: cr_def)
  have ef: "ef = real (n_edges mesh) / real (n_faces mesh)" using assms(2) by (simp add: ef_def)
  have "holes (detect_features mesh) = (if sa > 0.15 then max 1 (min 5 (py_int (sa * 5))) else 0)"
    unfolding f(1) Let_def sa_def by (rule refl)
  also have "\<dots> = (if sa > 0.15 then max 1 (min 5 \<lfloor>sa * 5\<rfloor>) else 0)"
    by (rule truncation_is_floor) simp_all
  finally have h: "holes (detect_features mesh) = (if sa > 0.15 then max 1 (min 5 \<lfloor>sa * 5\<rfloor>) else 0)" .
  have "cavities (detect_features mesh) = (if cr > 0.2 then max 1 (min 3 (py_int (cr * 3))) else 0)"
    unfolding f(2) Let_def cr_def by (rule refl)
  also have "\<dots> = (if cr > 0.2 then max 1 (min 3 \<lfloor>cr * 3\<rfloor>) else 0)"
    by (rule truncation_is_floor) simp_all
  finally have c: "cavities (detect_features mesh) = (if cr > 0.2 then max 1 (min 3 \<lfloor>cr * 3\<rfloor>) else 0)" .
  have "sharp_edges (detect_features mesh) = (if ef > 3 then max 1 (min 4 (py_int (ef * 1.5))) else 0)"
    unfolding f(3) Let_def ef_def by (rule refl)
  also have "\<dots> = (if ef > 3 then max 1 (min 4 \<lfloor>ef * 1.5\<rfloor>) else 0)"
    by (rule truncation_is_floor) simp_all
  finally have e: "sharp_edges (detect_features mesh) = (if ef > 3 then max 1 (min 4 \<lfloor>ef * 1.5\<rfloor>) else 0)" .
  have p: "pockets (detect_features mesh) =
           (if n_faces mesh > 2000 then max 1 (min 8 \<lfloor>real (n_faces mesh) / 1000\<rfloor>)
            else if n_faces mesh > 1000 then max 1 (min 4 \<lfloor>real (n_faces mesh) / 800\<rfloor>)
            else 0)"
    unfolding f(4) by (simp add: py_int_nonneg)
  show ?thesis
    unfolding h c e p sa cr ef by simp
qed

theorem detect_features_truncates_witness:
  "0 < mesh_volume box_example \<and> 0 < n_faces box_example \<and> hull_volume box_example \<noteq> 0
   \<and> mesh_area box_example / mesh_volume box_example * 5 = 11 / 6
   \<and> holes (detect_features box_example) = 1
   \<and> pockets (detect_features box_example) = 0
   \<and> cavities (detect_features box_example) = 0
   \<and> sharp_edges (detect_features box_example) = 0"
proof -
  have a: "0 < mesh_volume box_example" "0 < n_faces box_example" "hull_volume box_example \<noteq> 0"
    by (simp_all add: box_example_def)
  from detect_features_truncates[OF a] a show ?thesis
    by (simp add: box_example_def)
qed

subsection \<open>Size multiplier\<close>

text \<open>
  C2, as the specification words it, keyed on the longest edge of the bounding box, fails:
  the bar of 10 x 300 x 10 mm has a longest edge of 300 mm, which would give 0.9, and gets
  the multiplier 1.15 of a small part, because its extent along the x axis is 10 mm.
\<close>

theorem size_multiplier_longest_edge_counterexample:
  "calculate_costs bar_example 1 None = Inr (quote_for_block bar_example 1 None (300, 250, 250))
   \<and> longest_edge (get_bounding_box bar_example) = 300
   \<and> spec_size_multiplier bar_example = 0.9
   \<and> size_multiplier (breakdown (quote_for_block bar_example 1 None (300, 250, 250))) = 1.15
   \<and> size_multiplier (breakdown (quote_for_block bar_example 1 None (300, 250, 250)))
      \<noteq> spec_size_multiplier bar_example"
proof -
  have l: "longest_edge (get_bounding_box bar_example) = 300"
    by (simp add: longest_edge_def get_bounding_box_def bar_example_def)
  have s: "spec_size_multiplier bar_example = 0.9"
    by (simp add: spec_size_multiplier_def l)
  show ?thesis using bar_quote[of 1 None] l s bar_multipliers(2) by simp
qed

text \<open>
  C2, amended: the size multiplier is keyed on the field \<^verbatim>\<open>"length"\<close> of the bounding box,
  the extent of the part along the x axis: 1.15 when it is below 50, 0.9 when it is at
  least 200, and 1.0 otherwise; and it is a factor of the machine time cost.
\<close>

theorem size_multiplier_by_length:
  assumes "calculate_costs mesh quantity tier = Inr r"
  shows "size_multiplier (breakdown r)
           = (if length_bb (bounding_box r) < 50 then 1.15
              else if length_bb (bounding_box r) \<ge> 200 then 0.9 else 1.0)
       \<and> length_bb (bounding_box r) = fst (snd (mesh_bounds mesh)) - fst (fst (mesh_bounds mesh))
       \<and> machine_time_cost r
           = milling_cost_sum (breakdown r) * complexity_multiplier (breakdown r)
             * size_multiplier (breakdown r)"
proof -
  obtain b where r: "r = quote_for_block mesh quantity tier b"
    using assms by (rule calculate_costs_InrD)
  have bb: "bounding_box r = get_bounding_box mesh" unfolding r by (rule qfb_simple_fields)
  have s: "size_multiplier (breakdown r)
           = (if length_bb (bounding_box r) < 50 then 1.15
              else if length_bb (bounding_box r) \<ge> 200 then 0.9 else 1.0)"
    unfolding bb unfolding r qfb_multipliers
    by (simp add: get_size_category_def size_calibration_def dict_get_def)
  have l: "length_bb (bounding_box r) = fst (snd (mesh_bounds mesh)) - fst (fst (mesh_bounds mesh))"
    unfolding bb by (simp add: get_bounding_box_def split: prod.split)
  have m: "machine_time_cost r
           = milling_cost_sum (breakdown r) * complexity_multiplier (breakdown r)
             * size_multiplier (breakdown r)"
    unfolding r by (rule qfb_machine_time_cost)
  show ?thesis using s l m by simp
qed

theorem size_multiplier_by_length_witness:
  "calculate_costs bar_example 1 None = Inr (quote_for_block bar_example 1 None (300, 250, 250))
   \<and> length_bb (bounding_box (quote_for_block bar_example 1 None (300, 250, 250))) = 10
   \<and> size_multiplier (breakdown (quote_for_block bar_example 1 None (300, 250, 250))) = 1.15"
proof -
  have "fst (snd (mesh_bounds bar_example)) - fst (fst (mesh_bounds bar_example)) = 10"
    by (simp add: bar_example_def)
  with size_multiplier_by_length[OF bar_quote, of 1 None] bar_quote[of 1 None]
  show ?thesis by simp
qed

end
